theory Spec2Isabelle
  imports Complex_Main "HOL-Library.Sublist"
begin

section \<open>Data model\<close>

text \<open>
  JavaScript numbers are modelled as real numbers: the arithmetic of the fusion engine
  is the source's arithmetic with exact results, and the values \<open>NaN\<close> and
  \<open>\<plusminus>Infinity\<close> are not values of the type. Where the source divides by a
  quantity that can be zero, the model spells out what the comparison on the JavaScript
  result gives, instead of using HOL's \<open>a / 0 = 0\<close>.

  The source's objects are structurally typed: \<open>calculateIoU\<close> takes any object with
  \<open>x, y, width, height\<close>. Record extension gives the same: a function on
  \<open>'a Box_scheme\<close> accepts every record below.
\<close>

record Box =
  x :: real
  y :: real
  width :: real
  height :: real

record Face = Box +
  confidence :: real

text \<open>\<open>interface FaceCandidate\<close>; the optional \<open>landmarks\<close> field is an option.\<close>

record FaceCandidate = Face +
  source :: string
  landmarks :: "(real \<times> real) list option"

section \<open>Fusion engine\<close>

subsection \<open>\<open>calculateIoU\<close>\<close>

text \<open>The four locals \<open>x1, y1, x2, y2\<close> of \<open>calculateIoU\<close>.\<close>

definition iou_x1 :: "'a Box_scheme \<Rightarrow> 'b Box_scheme \<Rightarrow> real" where
  "iou_x1 box1 box2 = max (x box1) (x box2)"

definition iou_y1 :: "'a Box_scheme \<Rightarrow> 'b Box_scheme \<Rightarrow> real" where
  "iou_y1 box1 box2 = max (y box1) (y box2)"

definition iou_x2 :: "'a Box_scheme \<Rightarrow> 'b Box_scheme \<Rightarrow> real" where
  "iou_x2 box1 box2 = min (x box1 + width box1) (x box2 + width box2)"

definition iou_y2 :: "'a Box_scheme \<Rightarrow> 'b Box_scheme \<Rightarrow> real" where
  "iou_y2 box1 box2 = min (y box1 + height box1) (y box2 + height box2)"

text \<open>The locals \<open>intersection\<close> and \<open>union\<close>, computed after the early return.\<close>

definition iou_intersection :: "'a Box_scheme \<Rightarrow> 'b Box_scheme \<Rightarrow> real" where
  "iou_intersection box1 box2 =
     (iou_x2 box1 box2 - iou_x1 box1 box2) * (iou_y2 box1 box2 - iou_y1 box1 box2)"

definition iou_union :: "'a Box_scheme \<Rightarrow> 'b Box_scheme \<Rightarrow> real" where
  "iou_union box1 box2 =
     width box1 * height box1 + width box2 * height box2 - iou_intersection box1 box2"

definition calculateIoU :: "'a Box_scheme \<Rightarrow> 'b Box_scheme \<Rightarrow> real" where
  "calculateIoU box1 box2 =
     (if iou_x2 box1 box2 \<le> iou_x1 box1 box2 \<or> iou_y2 box1 box2 \<le> iou_y1 box1 box2 then 0
      else iou_intersection box1 box2 / iou_union box1 box2)"


subsection \<open>\<open>advancedQualityFilter\<close>\<close>

definition minSize :: "real \<Rightarrow> real \<Rightarrow> real \<Rightarrow> real" where
  "minSize imgWidth imgHeight sensitivity =
     min imgWidth imgHeight * (if sensitivity > 0.7 then 0.008 else 0.015)"

definition maxSize :: "real \<Rightarrow> real \<Rightarrow> real" where
  "maxSize imgWidth imgHeight = min imgWidth imgHeight * 0.8"

definition minConfidence :: "real \<Rightarrow> real" where
  "minConfidence sensitivity = max 0.1 (0.6 - sensitivity * 0.4)"

text \<open>
  \<open>aspectRatio < 0.4 || aspectRatio > 2.5\<close> for \<open>aspectRatio = width / height\<close>.
  With \<open>height = 0\<close> JavaScript yields \<open>\<plusminus>Infinity\<close> (one of the comparisons is
  true) or, for \<open>0 / 0\<close>, \<open>NaN\<close> (both comparisons are false).
\<close>

definition aspectRatioRejected :: "real \<Rightarrow> real \<Rightarrow> bool" where
  "aspectRatioRejected w h =
     (if h = 0 then w \<noteq> 0 else w / h < 0.4 \<or> w / h > 2.5)"

text \<open>The callback of \<open>candidates.filter\<close>, with its early returns in order.\<close>

definition qualityAccepts :: "FaceCandidate \<Rightarrow> real \<Rightarrow> real \<Rightarrow> real \<Rightarrow> bool" where
  "qualityAccepts candidate imgWidth imgHeight sensitivity =
     (if width candidate < minSize imgWidth imgHeight sensitivity
         \<or> height candidate < minSize imgWidth imgHeight sensitivity then False
      else if width candidate > maxSize imgWidth imgHeight
         \<or> height candidate > maxSize imgWidth imgHeight then False
      else if aspectRatioRejected (width candidate) (height candidate) then False
      else if confidence candidate < minConfidence sensitivity then False
      else if x candidate < 0 \<or> y candidate < 0 then False
      else if x candidate + width candidate > imgWidth
         \<or> y candidate + height candidate > imgHeight then False
      else True)"

definition advancedQualityFilter ::
  "FaceCandidate list \<Rightarrow> real \<Rightarrow> real \<Rightarrow> real \<Rightarrow> FaceCandidate list" where
  "advancedQualityFilter candidates imgWidth imgHeight sensitivity =
     filter (\<lambda>candidate. qualityAccepts candidate imgWidth imgHeight sensitivity) candidates"


subsection \<open>\<open>confidenceBasedClustering\<close>\<close>

text \<open>
  \<open>candidates.sort((a, b) => b.confidence - a.confidence)\<close>: a stable sort, highest
  confidence first.
\<close>

definition sortByConfidence :: "'a Face_scheme list \<Rightarrow> 'a Face_scheme list" where
  "sortByConfidence candidates = sort_key (\<lambda>c. - confidence c) candidates"

definition clusterThreshold :: "real \<Rightarrow> real" where
  "clusterThreshold sensitivity = (if sensitivity > 0.7 then 0.3 else 0.5)"

text \<open>
  A cluster is a non-empty array: it is created as \<open>[candidate]\<close> and only grows by
  \<open>push\<close>. It is modelled as its first element \<open>cluster[0]\<close>, the representative,
  with the elements pushed later.
\<close>

type_synonym cluster = "FaceCandidate \<times> FaceCandidate list"

definition members :: "cluster \<Rightarrow> FaceCandidate list" where
  "members cluster = fst cluster # snd cluster"

text \<open>
  One round of the outer loop: the inner loop over \<open>clusters\<close> with its \<open>break\<close>,
  then \<open>clusters.push([candidate])\<close> when no cluster took the candidate.
\<close>

fun addToCluster :: "real \<Rightarrow> FaceCandidate \<Rightarrow> cluster list \<Rightarrow> cluster list" where
  "addToCluster sensitivity candidate [] = [(candidate, [])]"
| "addToCluster sensitivity candidate ((representative, rest) # clusters) =
     (if calculateIoU candidate representative > clusterThreshold sensitivity
      then (representative, rest @ [candidate]) # clusters
      else (representative, rest) # addToCluster sensitivity candidate clusters)"

definition buildClusters :: "real \<Rightarrow> FaceCandidate list \<Rightarrow> cluster list" where
  "buildClusters sensitivity sortedCandidates =
     foldl (\<lambda>clusters candidate. addToCluster sensitivity candidate clusters) []
       sortedCandidates"

text \<open>\<open>String.prototype.includes\<close>.\<close>

fun str_includes :: "string \<Rightarrow> string \<Rightarrow> bool" where
  "str_includes [] pat = (pat = [])"
| "str_includes (c # cs) pat = (prefix pat (c # cs) \<or> str_includes cs pat)"

text \<open>\<open>Math.round\<close> rounds to the nearest integer, a half towards \<open>+\<infinity>\<close>.\<close>

definition Math_round :: "real \<Rightarrow> real" where
  "Math_round v = of_int \<lfloor>v + 1 / 2\<rfloor>"

definition score :: "FaceCandidate \<Rightarrow> real" where
  "score candidate =
     (let s0 = confidence candidate;
          s1 = (if str_includes (source candidate) ''MediaPipe Full'' then s0 * 1.1 else s0)
      in if landmarks candidate \<noteq> None then s1 * 1.15 else s1)"

text \<open>\<open>scored.reduce((a, b) => a.score > b.score ? a : b)\<close> over a non-empty array.\<close>

definition bestScored :: "cluster \<Rightarrow> FaceCandidate \<times> real" where
  "bestScored cluster =
     foldl (\<lambda>a b. if snd a > snd b then a else b)
       (fst cluster, score (fst cluster))
       (map (\<lambda>candidate. (candidate, score candidate)) (snd cluster))"

definition average :: "(FaceCandidate \<Rightarrow> real) \<Rightarrow> cluster \<Rightarrow> real" where
  "average field cluster =
     sum_list (map field (members cluster)) / real (length (members cluster))"

definition selectBestFromCluster :: "cluster \<Rightarrow> real \<Rightarrow> FaceCandidate" where
  "selectBestFromCluster cluster sensitivity =
     (if length (members cluster) = 1 then fst cluster
      else (let best = bestScored cluster
            in (fst best)\<lparr>
                 x := Math_round (average x cluster),
                 y := Math_round (average y cluster),
                 width := Math_round (average width cluster),
                 height := Math_round (average height cluster),
                 confidence := min 1.0 (snd best)\<rparr>))"

definition confidenceBasedClustering :: "FaceCandidate list \<Rightarrow> real \<Rightarrow> FaceCandidate list" where
  "confidenceBasedClustering candidates sensitivity =
     (if candidates = [] then []
      else map (\<lambda>cluster. selectBestFromCluster cluster sensitivity)
             (buildClusters sensitivity (sortByConfidence candidates)))"

subsection \<open>\<open>adaptiveNonMaxSuppression\<close>\<close>

text \<open>
  \<open>sizeRatio < 0.5\<close> for \<open>sizeRatio = Math.min(a1, a2) / Math.max(a1, a2)\<close>. When the
  larger area is zero, JavaScript yields \<open>NaN\<close> for \<open>0 / 0\<close> (the comparison is false)
  and \<open>-Infinity\<close> for a negative numerator (the comparison is true).
\<close>

definition sizeRatioBelowHalf :: "real \<Rightarrow> real \<Rightarrow> bool" where
  "sizeRatioBelowHalf area1 area2 =
     (if max area1 area2 = 0 then min area1 area2 < 0
      else min area1 area2 / max area1 area2 < 0.5)"

definition nmsThreshold :: "real \<Rightarrow> 'a Box_scheme \<Rightarrow> 'b Box_scheme \<Rightarrow> real" where
  "nmsThreshold sensitivity candidate kept =
     (let threshold = (if sensitivity > 0.7 then 0.25 else 0.4)
      in if sizeRatioBelowHalf (width candidate * height candidate) (width kept * height kept)
         then threshold * 0.8 else threshold)"

text \<open>The inner loop over \<open>keep\<close>: \<open>shouldKeep\<close> becomes false at the first overlap.\<close>

definition shouldKeep :: "real \<Rightarrow> FaceCandidate \<Rightarrow> FaceCandidate list \<Rightarrow> bool" where
  "shouldKeep sensitivity candidate keep \<longleftrightarrow>
     \<not> list_ex (\<lambda>kept. calculateIoU candidate kept > nmsThreshold sensitivity candidate kept) keep"

text \<open>The outer loop, which stops once \<open>keep\<close> holds 200 candidates.\<close>

fun nmsLoop :: "real \<Rightarrow> FaceCandidate list \<Rightarrow> FaceCandidate list \<Rightarrow> FaceCandidate list" where
  "nmsLoop sensitivity keep [] = keep"
| "nmsLoop sensitivity keep (candidate # rest) =
     (let keep' = (if shouldKeep sensitivity candidate keep then keep @ [candidate] else keep)
      in if length keep' \<ge> 200 then keep' else nmsLoop sensitivity keep' rest)"

definition toFace :: "FaceCandidate \<Rightarrow> Face" where
  "toFace c = \<lparr>x = max 0 (x c), y = max 0 (y c), width = width c, height = height c,
              confidence = confidence c\<rparr>"

definition adaptiveNonMaxSuppression :: "FaceCandidate list \<Rightarrow> real \<Rightarrow> Face list" where
  "adaptiveNonMaxSuppression candidates sensitivity =
     (if candidates = [] then []
      else map toFace (nmsLoop sensitivity [] (sortByConfidence candidates)))"

subsection \<open>\<open>advancedEnsembleFusion\<close>\<close>

definition advancedEnsembleFusion ::
  "FaceCandidate list \<Rightarrow> real \<Rightarrow> real \<Rightarrow> real \<Rightarrow> Face list" where
  "advancedEnsembleFusion candidates imgWidth imgHeight sensitivity =
     (if candidates = [] then []
      else (let qualityFiltered = advancedQualityFilter candidates imgWidth imgHeight sensitivity;
                clustered = confidenceBasedClustering qualityFiltered sensitivity;
                finalFaces = adaptiveNonMaxSuppression clustered sensitivity
            in take 250 finalFaces))"

section \<open>Manual zone heuristic\<close>

text \<open>\<open>(face.width + face.height) / 2\<close>.\<close>

definition faceSize :: "'a Box_scheme \<Rightarrow> real" where
  "faceSize face = (width face + height face) / 2"

text \<open>The callback of \<open>existingFaces.filter\<close> in strategy 1.\<close>

definition isNearby :: "real \<Rightarrow> real \<Rightarrow> real \<Rightarrow> real \<Rightarrow> 'a Box_scheme \<Rightarrow> bool" where
  "isNearby clickX clickY imageWidth imageHeight face =
     (let centerX = x face + width face / 2;
          centerY = y face + height face / 2;
          distance = sqrt ((clickX - centerX)\<^sup>2 + (clickY - centerY)\<^sup>2)
      in distance < min imageWidth imageHeight * 0.3)"

text \<open>
  \<open>calculateSmartZoneSize\<close>, with \<open>imageSize\<close> passed as its two fields. The result
  is \<open>None\<close> where JavaScript returns \<open>NaN\<close>: in strategy 3 the square root of a
  negative area, or the division by \<open>maxDistance = 0\<close> (an image of size 0 by 0, for
  which \<open>imageDPI * 35 * centerFactor\<close> is \<open>0 * NaN\<close> or \<open>0 * -Infinity\<close>).
\<close>

definition calculateSmartZoneSize ::
  "real \<Rightarrow> real \<Rightarrow> 'a Box_scheme list \<Rightarrow> real \<Rightarrow> real \<Rightarrow> real option" where
  "calculateSmartZoneSize clickX clickY existingFaces imageWidth imageHeight =
     (let nearbyFaces = filter (isNearby clickX clickY imageWidth imageHeight) existingFaces
      in if length nearbyFaces > 0 then
           (let avgNearbySize = sum_list (map faceSize nearbyFaces) / real (length nearbyFaces)
            in Some (max 32 (min 200 avgNearbySize)))
         else if length existingFaces > 0 then
           (let allSizes = map faceSize existingFaces;
                avgSize = sum_list allSizes / real (length allSizes);
                medianSize = sort allSizes ! (length allSizes div 2);
                contextualSize = (avgSize + medianSize) / 2
            in Some (max 40 (min 150 contextualSize)))
         else
           (let imageArea = imageWidth * imageHeight;
                centerX = imageWidth / 2;
                centerY = imageHeight / 2;
                distanceFromCenter = sqrt ((clickX - centerX)\<^sup>2 + (clickY - centerY)\<^sup>2);
                maxDistance = sqrt (centerX\<^sup>2 + centerY\<^sup>2)
            in if imageArea < 0 \<or> maxDistance = 0 then None
               else (let imageDPI = sqrt imageArea / 1000;
                         centerFactor = 1 + (1 - distanceFromCenter / maxDistance) * 0.3;
                         baseSize = max 40 (min 120 (imageDPI * 35 * centerFactor))
                     in Some baseSize)))"

section \<open>Redaction renderer\<close>

subsection \<open>The drawing context\<close>

text \<open>
  The canvas is an external collaborator. The model keeps the two properties of the
  2D context that the renderer sets, and the list of drawing operations that have been
  carried out on the surface, each with the fill style and filter in force.
\<close>

datatype draw_op =
    FillRect string string int int int int
  | DrawImage string int int int int

record Context2D =
  ctx_filter :: string
  fillStyle :: string
  drawn :: "draw_op list"

text \<open>
  A call either returns or throws; in both cases the mutations made so far persist, so
  both carry the context.
\<close>

datatype outcome = Returns Context2D | Throws Context2D

text \<open>
  What the external canvas does is a parameter: any call of \<open>drawImage\<close>,
  \<open>getImageData\<close> or \<open>fillRect\<close> may throw, and \<open>getImageData\<close> otherwise yields
  the red, green and blue bytes of the pixel.
\<close>

record CanvasEnv =
  drawImageThrows :: "Context2D \<Rightarrow> int \<Rightarrow> int \<Rightarrow> int \<Rightarrow> int \<Rightarrow> bool"
  getImageData :: "Context2D \<Rightarrow> int \<Rightarrow> int \<Rightarrow> (nat \<times> nat \<times> nat) option"
  fillRectThrows :: "Context2D \<Rightarrow> int \<Rightarrow> int \<Rightarrow> int \<Rightarrow> int \<Rightarrow> bool"

text \<open>\<open>ctx.drawImage(canvas, x, y, width, height, x, y, width, height)\<close>.\<close>

definition drawImage :: "CanvasEnv \<Rightarrow> Context2D \<Rightarrow> int \<Rightarrow> int \<Rightarrow> int \<Rightarrow> int \<Rightarrow> outcome" where
  "drawImage env ctx px py w h =
     (if drawImageThrows env ctx px py w h then Throws ctx
      else Returns (ctx\<lparr>drawn := drawn ctx @ [DrawImage (ctx_filter ctx) px py w h]\<rparr>))"

definition fillRect :: "CanvasEnv \<Rightarrow> Context2D \<Rightarrow> int \<Rightarrow> int \<Rightarrow> int \<Rightarrow> int \<Rightarrow> outcome" where
  "fillRect env ctx px py w h =
     (if fillRectThrows env ctx px py w h then Throws ctx
      else Returns (ctx\<lparr>drawn := drawn ctx @ [FillRect (fillStyle ctx) (ctx_filter ctx) px py w h]\<rparr>))"


subsection \<open>The three transforms\<close>

definition applyBlackoutWithContext ::
  "CanvasEnv \<Rightarrow> Context2D \<Rightarrow> int \<Rightarrow> int \<Rightarrow> int \<Rightarrow> int \<Rightarrow> outcome" where
  "applyBlackoutWithContext env ctx px py w h =
     fillRect env (ctx\<lparr>fillStyle := ''#000000''\<rparr>) px py w h"

text \<open>The loop \<open>for (let i = 0; i < 3; i++)\<close>, by the number of passes left.\<close>

fun blurPasses :: "CanvasEnv \<Rightarrow> nat \<Rightarrow> Context2D \<Rightarrow> int \<Rightarrow> int \<Rightarrow> int \<Rightarrow> int \<Rightarrow> outcome" where
  "blurPasses env 0 ctx px py w h = Returns ctx"
| "blurPasses env (Suc n) ctx px py w h =
     (case drawImage env (ctx\<lparr>ctx_filter := ''blur(8px)''\<rparr>) px py w h of
        Throws ctx' \<Rightarrow> Throws ctx'
      | Returns ctx' \<Rightarrow> blurPasses env n ctx' px py w h)"

text \<open>The body of the \<open>try\<close> in \<open>applyAdvancedBlurWithContext\<close>.\<close>

definition blurBody :: "CanvasEnv \<Rightarrow> Context2D \<Rightarrow> int \<Rightarrow> int \<Rightarrow> int \<Rightarrow> int \<Rightarrow> outcome" where
  "blurBody env ctx px py w h =
     (case blurPasses env 3 ctx px py w h of
        Throws ctx' \<Rightarrow> Throws ctx'
      | Returns ctx' \<Rightarrow> Returns (ctx'\<lparr>ctx_filter := ''none''\<rparr>))"

definition applyAdvancedBlurWithContext ::
  "CanvasEnv \<Rightarrow> Context2D \<Rightarrow> int \<Rightarrow> int \<Rightarrow> int \<Rightarrow> int \<Rightarrow> outcome" where
  "applyAdvancedBlurWithContext env ctx px py w h =
     (case blurBody env ctx px py w h of
        Returns ctx' \<Rightarrow> Returns ctx'
      | Throws ctx' \<Rightarrow> applyBlackoutWithContext env ctx' px py w h)"

definition pixelSizeOf :: "int \<Rightarrow> int \<Rightarrow> int" where
  "pixelSizeOf w h = max 6 (min 16 (min w h div 8))"

text \<open>Decimal digits of a number, for the template string \<open>rgb(r,g,b)\<close>.\<close>

fun decimal :: "nat \<Rightarrow> string" where
  "decimal n =
     (if n < 10 then [char_of (48 + n)] else decimal (n div 10) @ [char_of (48 + n mod 10)])"

definition rgb :: "nat \<Rightarrow> nat \<Rightarrow> nat \<Rightarrow> string" where
  "rgb r g b = ''rgb('' @ decimal r @ '','' @ decimal g @ '','' @ decimal b @ '')''"

text \<open>
  The body of the inner loop: the \<open>try\<close> samples one pixel and fills the block with
  its colour; the \<open>catch\<close> fills the block with black.
\<close>

definition pixelateBlock ::
  "CanvasEnv \<Rightarrow> Context2D \<Rightarrow> int \<Rightarrow> int \<Rightarrow> int \<Rightarrow> int \<Rightarrow> int \<Rightarrow> int \<Rightarrow> outcome" where
  "pixelateBlock env ctx rx ry w h bx by' =
     (let pixelSize = pixelSizeOf w h;
          sampleX = min (rx + bx + pixelSize div 2) (rx + w - 1);
          sampleY = min (ry + by' + pixelSize div 2) (ry + h - 1);
          attempt =
            (case getImageData env ctx sampleX sampleY of
               None \<Rightarrow> Throws ctx
             | Some (r, g, b) \<Rightarrow>
                 fillRect env (ctx\<lparr>fillStyle := rgb r g b\<rparr>) (rx + bx) (ry + by')
                   (min pixelSize (w - bx)) (min pixelSize (h - by')))
      in case attempt of
           Returns ctx' \<Rightarrow> Returns ctx'
         | Throws ctx' \<Rightarrow>
             fillRect env (ctx'\<lparr>fillStyle := ''#000000''\<rparr>) (rx + bx) (ry + by')
               (min pixelSize (w - bx)) (min pixelSize (h - by')))"

text \<open>\<open>for (let px = 0; px < width; px += pixelSize)\<close>.\<close>

function pixelateRow ::
  "CanvasEnv \<Rightarrow> Context2D \<Rightarrow> int \<Rightarrow> int \<Rightarrow> int \<Rightarrow> int \<Rightarrow> int \<Rightarrow> int \<Rightarrow> outcome" where
  "pixelateRow env ctx rx ry w h by' bx =
     (if bx < w then
        (case pixelateBlock env ctx rx ry w h bx by' of
           Throws ctx' \<Rightarrow> Throws ctx'
         | Returns ctx' \<Rightarrow> pixelateRow env ctx' rx ry w h by' (bx + pixelSizeOf w h))
      else Returns ctx)"
  by pat_completeness auto
termination
  by (relation "measure (\<lambda>(env, ctx, rx, ry, w, h, by', bx). nat (w - bx))")
     (auto simp: pixelSizeOf_def)

declare pixelateRow.simps [simp del]

text \<open>\<open>for (let py = 0; py < height; py += pixelSize)\<close>.\<close>

function pixelateRows ::
  "CanvasEnv \<Rightarrow> Context2D \<Rightarrow> int \<Rightarrow> int \<Rightarrow> int \<Rightarrow> int \<Rightarrow> int \<Rightarrow> outcome" where
  "pixelateRows env ctx rx ry w h by' =
     (if by' < h then
        (case pixelateRow env ctx rx ry w h by' 0 of
           Throws ctx' \<Rightarrow> Throws ctx'
         | Returns ctx' \<Rightarrow> pixelateRows env ctx' rx ry w h (by' + pixelSizeOf w h))
      else Returns ctx)"
  by pat_completeness auto
termination
  by (relation "measure (\<lambda>(env, ctx, rx, ry, w, h, by'). nat (h - by'))")
     (auto simp: pixelSizeOf_def)

declare pixelateRows.simps [simp del]

definition applyPixelationWithContext ::
  "CanvasEnv \<Rightarrow> Context2D \<Rightarrow> int \<Rightarrow> int \<Rightarrow> int \<Rightarrow> int \<Rightarrow> outcome" where
  "applyPixelationWithContext env ctx rx ry w h = pixelateRows env ctx rx ry w h 0"

subsection \<open>\<open>applyRedactionToFaceWithContext\<close>\<close>

datatype RedactionMethod = Blur | Pixelate | Blackout

text \<open>
  The face passed by \<open>applyRedaction\<close> and \<open>createLivePreview\<close> has been through
  \<open>Math.floor\<close>; its coordinates are integers, as are the canvas dimensions. The
  fields \<open>left\<close>, \<open>top\<close>, \<open>across\<close> and \<open>down\<close> are the \<open>x\<close>, \<open>y\<close>, \<open>width\<close> and
  \<open>height\<close> of that object.
\<close>

record PixelBox =
  left :: int
  top :: int
  across :: int
  down :: int

definition clampedX :: "int \<Rightarrow> PixelBox \<Rightarrow> int" where
  "clampedX canvasWidth face = max 0 (min (left face) (canvasWidth - 1))"

definition clampedY :: "int \<Rightarrow> PixelBox \<Rightarrow> int" where
  "clampedY canvasHeight face = max 0 (min (top face) (canvasHeight - 1))"

definition clampedWidth :: "int \<Rightarrow> PixelBox \<Rightarrow> int" where
  "clampedWidth canvasWidth face = min (across face) (canvasWidth - clampedX canvasWidth face)"

definition clampedHeight :: "int \<Rightarrow> PixelBox \<Rightarrow> int" where
  "clampedHeight canvasHeight face = min (down face) (canvasHeight - clampedY canvasHeight face)"

text \<open>The \<open>switch\<close> inside the \<open>try\<close>.\<close>

definition applyMethod ::
  "CanvasEnv \<Rightarrow> Context2D \<Rightarrow> RedactionMethod \<Rightarrow> int \<Rightarrow> int \<Rightarrow> int \<Rightarrow> int \<Rightarrow> outcome" where
  "applyMethod env ctx method px py w h =
     (case method of
        Blur \<Rightarrow> applyAdvancedBlurWithContext env ctx px py w h
      | Pixelate \<Rightarrow> applyPixelationWithContext env ctx px py w h
      | Blackout \<Rightarrow> applyBlackoutWithContext env ctx px py w h)"

definition applyRedactionToFaceWithContext ::
  "CanvasEnv \<Rightarrow> Context2D \<Rightarrow> int \<Rightarrow> int \<Rightarrow> PixelBox \<Rightarrow> RedactionMethod \<Rightarrow> outcome" where
  "applyRedactionToFaceWithContext env ctx canvasWidth canvasHeight face method =
     (if clampedWidth canvasWidth face \<le> 0 \<or> clampedHeight canvasHeight face \<le> 0
      then Returns ctx
      else
        (case applyMethod env ctx method (clampedX canvasWidth face) (clampedY canvasHeight face)
                (clampedWidth canvasWidth face) (clampedHeight canvasHeight face) of
           Returns ctx' \<Rightarrow> Returns ctx'
         | Throws ctx' \<Rightarrow>
             applyBlackoutWithContext env ctx' (clampedX canvasWidth face)
               (clampedY canvasHeight face) (clampedWidth canvasWidth face)
               (clampedHeight canvasHeight face)))"

subsection \<open>What a call has drawn\<close>




subsection \<open>\<open>applyRedaction\<close> and \<open>createLivePreview\<close>\<close>

text \<open>
  An image file is modelled by what \<open>new Image()\<close> does with it: \<open>onerror\<close> fires, or
  \<open>onload\<close> fires with the decoded width and height.
\<close>

datatype ImageFile = LoadError | Loaded nat nat

datatype error =
    FailedToLoadImage
  | InvalidImageDimensions
  | FailedToCreateProtectedImage
  | CanvasException

text \<open>The canvas size: the image size, scaled down when a side exceeds the maximum.\<close>

definition canvasSize :: "nat \<Rightarrow> nat \<Rightarrow> nat \<Rightarrow> int \<times> int" where
  "canvasSize maxCanvasSize imgWidth imgHeight =
     (if max imgWidth imgHeight > maxCanvasSize then
        (let scale = real maxCanvasSize / real (max imgWidth imgHeight)
         in (\<lfloor>real imgWidth * scale\<rfloor>, \<lfloor>real imgHeight * scale\<rfloor>))
      else (int imgWidth, int imgHeight))"

definition scaledFace :: "real \<Rightarrow> real \<Rightarrow> 'a Box_scheme \<Rightarrow> PixelBox" where
  "scaledFace scaleX scaleY face =
     \<lparr>left = \<lfloor>x face * scaleX\<rfloor>, top = \<lfloor>y face * scaleY\<rfloor>,
      across = \<lfloor>width face * scaleX\<rfloor>, down = \<lfloor>height face * scaleY\<rfloor>\<rparr>"

text \<open>\<open>faces.forEach\<close>: an exception leaves the loop.\<close>

fun redactFaces ::
  "CanvasEnv \<Rightarrow> Context2D \<Rightarrow> int \<Rightarrow> int \<Rightarrow> PixelBox list \<Rightarrow> RedactionMethod \<Rightarrow> outcome" where
  "redactFaces env ctx canvasWidth canvasHeight [] method = Returns ctx"
| "redactFaces env ctx canvasWidth canvasHeight (face # faces) method =
     (case applyRedactionToFaceWithContext env ctx canvasWidth canvasHeight face method of
        Throws ctx' \<Rightarrow> Throws ctx'
      | Returns ctx' \<Rightarrow> redactFaces env ctx' canvasWidth canvasHeight faces method)"

text \<open>
  The body of \<open>img.onload\<close> shared by the two renderers: size the canvas (which resets
  the context), draw the image, redact each face, encode. An exception anywhere is
  caught and rejects the promise. The encoder (\<open>toBlob\<close>, \<open>toDataURL\<close>) is external:
  \<open>encodes\<close> tells whether it delivers a payload, which the model identifies with the
  surface it was made from, and \<open>encodeError\<close> is the rejection when it does not.
\<close>

definition renderOnto ::
  "CanvasEnv \<Rightarrow> (Context2D \<Rightarrow> bool) \<Rightarrow> error \<Rightarrow> nat \<Rightarrow> ImageFile \<Rightarrow> 'a Box_scheme list \<Rightarrow>
     RedactionMethod \<Rightarrow> error + Context2D" where
  "renderOnto env encodes encodeError maxCanvasSize imageFile faces method =
     (case imageFile of
        LoadError \<Rightarrow> Inl FailedToLoadImage
      | Loaded imgWidth imgHeight \<Rightarrow>
          if imgWidth = 0 \<or> imgHeight = 0 then Inl InvalidImageDimensions
          else
            (let (canvasWidth, canvasHeight) = canvasSize maxCanvasSize imgWidth imgHeight;
                 blank = \<lparr>ctx_filter = ''none'', fillStyle = ''#000000'', drawn = []\<rparr>
             in case drawImage env blank 0 0 canvasWidth canvasHeight of
                  Throws ctx' \<Rightarrow> Inl CanvasException
                | Returns ctx0 \<Rightarrow>
                    (let scaleX = real_of_int canvasWidth / real imgWidth;
                         scaleY = real_of_int canvasHeight / real imgHeight
                     in case redactFaces env ctx0 canvasWidth canvasHeight
                               (map (scaledFace scaleX scaleY) faces) method of
                          Throws ctx' \<Rightarrow> Inl CanvasException
                        | Returns ctx' \<Rightarrow>
                            if encodes ctx' then Inr ctx' else Inl encodeError)))"

definition applyRedaction ::
  "CanvasEnv \<Rightarrow> (Context2D \<Rightarrow> bool) \<Rightarrow> ImageFile \<Rightarrow> 'a Box_scheme list \<Rightarrow> RedactionMethod \<Rightarrow>
     error + Context2D" where
  "applyRedaction env toBlob imageFile faces method =
     renderOnto env toBlob FailedToCreateProtectedImage 4096 imageFile faces method"

definition createLivePreview ::
  "CanvasEnv \<Rightarrow> (Context2D \<Rightarrow> bool) \<Rightarrow> ImageFile \<Rightarrow> 'a Box_scheme list \<Rightarrow> RedactionMethod \<Rightarrow>
     error + Context2D" where
  "createLivePreview env toDataURL imageFile faces method =
     renderOnto env toDataURL CanvasException 800 imageFile faces method"

subsection \<open>The regions the component passes to the renderer\<close>






section \<open>Detection entry point\<close>

record DetectionModel =
  name :: string
  isLoaded :: bool
  priority :: nat
  bestFor :: string

text \<open>
  The fields of \<open>ImageProcessor\<close> that \<open>detectFaces\<close> reads and writes.
  \<open>detectionsStarted\<close> is not a field of the source: it counts the calls of
  \<open>advancedEnsembleDetection\<close>, so that "no detection strategy ran" can be stated.
\<close>

record ImageProcessor =
  models :: "(string \<times> DetectionModel) list"
  isInitialized :: bool
  isProcessing :: bool
  detectionsStarted :: nat

text \<open>How \<open>initializationPromise\<close> settles.\<close>

datatype settled = Fulfilled | Rejected

text \<open>
  The detectors and the landmark model are external. \<open>strategies\<close> is the list
  \<open>validatedResults\<close> that strategies 1 to 5 of \<open>advancedEnsembleDetection\<close> deliver
  for an image of the given size at the given sensitivity, or \<open>None\<close> when one of them
  throws.
\<close>

record DetectionEnv =
  initialization :: settled
  strategies :: "nat \<Rightarrow> nat \<Rightarrow> real \<Rightarrow> FaceCandidate list option"

definition loadedModels :: "ImageProcessor \<Rightarrow> DetectionModel list" where
  "loadedModels p = filter isLoaded (map snd (models p))"

text \<open>
  \<open>detectFaces\<close> after \<open>await this.initializationPromise\<close> (the constructor sets the
  promise, so the test \<open>if (this.initializationPromise)\<close> succeeds): the three early
  returns (\<open>None\<close>), else \<open>this.isProcessing = true\<close>.
\<close>

definition detectFacesAdmit :: "ImageProcessor \<Rightarrow> settled \<Rightarrow> ImageProcessor option" where
  "detectFacesAdmit p init =
     (case init of
        Rejected \<Rightarrow> None
      | Fulfilled \<Rightarrow>
          if \<not> isInitialized p then None
          else if length (loadedModels p) = 0 then None
          else Some (p\<lparr>isProcessing := True\<rparr>))"

text \<open>
  The promise inside the \<open>try\<close>: it resolves with the empty list on \<open>img.onerror\<close>, on
  a zero dimension and when \<open>advancedEnsembleDetection\<close> throws.
\<close>

definition detectionPass ::
  "DetectionEnv \<Rightarrow> ImageProcessor \<Rightarrow> ImageFile \<Rightarrow> real \<Rightarrow> Face list \<times> ImageProcessor" where
  "detectionPass env p imageFile sensitivity =
     (case imageFile of
        LoadError \<Rightarrow> ([], p)
      | Loaded imgWidth imgHeight \<Rightarrow>
          if imgWidth = 0 \<or> imgHeight = 0 then ([], p)
          else
            (let p' = p\<lparr>detectionsStarted := Suc (detectionsStarted p)\<rparr>
             in case strategies env imgWidth imgHeight sensitivity of
                  None \<Rightarrow> ([], p')
                | Some validatedResults \<Rightarrow>
                    (advancedEnsembleFusion validatedResults (real imgWidth) (real imgHeight)
                       sensitivity, p')))"

text \<open>The \<open>finally\<close> block.\<close>

definition detectFacesFinally :: "ImageProcessor \<Rightarrow> ImageProcessor" where
  "detectFacesFinally p = p\<lparr>isProcessing := False\<rparr>"

text \<open>
  One call of \<open>detectFaces\<close> run to completion with no other call interleaved. The
  promise it returns resolves (\<open>Inr\<close>) or rejects (\<open>Inl\<close>).
\<close>

definition detectFaces ::
  "DetectionEnv \<Rightarrow> ImageProcessor \<Rightarrow> ImageFile \<Rightarrow> real \<Rightarrow> (error + Face list) \<times> ImageProcessor" where
  "detectFaces env p imageFile sensitivity =
     (if isProcessing p then (Inr [], p)
      else
        (case detectFacesAdmit p (initialization env) of
           None \<Rightarrow> (Inr [], p)
         | Some p1 \<Rightarrow>
             (let (faces, p2) = detectionPass env p1 imageFile sensitivity
              in (Inr faces, detectFacesFinally p2))))"

section \<open>Session orchestration\<close>

text \<open>
  The component's state that decides when detection runs (with its \<open>file\<close> prop, here
  \<open>fileProp\<close>), and the \<open>detectFaces\<close> calls it has made that have not yet returned
  to it. JavaScript runs one callback at a time; an \<open>await\<close> ends the callback, and the
  rest of the function runs as a later one. Each event below is one such callback.
\<close>

text \<open>The three stops of the range input (\<open>min="0" max="2" step="1"\<close>).\<close>

datatype SliderStop = Fast | Balanced | Thorough

fun sliderValue :: "SliderStop \<Rightarrow> real" where
  "sliderValue Fast = 0"
| "sliderValue Balanced = 1"
| "sliderValue Thorough = 2"

text \<open>
  A call of \<open>detectFaces\<close>: suspended at \<open>await this.initializationPromise\<close>,
  suspended inside the pass, or settled and waiting for its caller to continue.
\<close>

datatype call = AwaitingInitialization real | InPass real | Settled

record Session =
  fileProp :: ImageFile
  processor :: ImageProcessor
  initializationPromise :: "settled option"
  isDetectionRunningRef :: bool
  imageLoaded :: bool
  sensitivityLevel :: real
  detectionTimeout :: "real option"
  resetTimeouts :: "real list"
  inFlight :: "call list"
  detectFacesArguments :: "real list"

text \<open>
  \<open>initializationPromise\<close> is \<open>None\<close> while pending. \<open>detectionTimeout\<close> is the timer
  held in \<open>detectionTimeoutRef\<close> and \<open>resetTimeouts\<close> are the timers set by
  \<open>resetToOriginal\<close>, each with the sensitivity level its closure captured.
  \<open>detectFacesArguments\<close> is not state of the source: it records the sensitivity
  argument of every call of \<open>detectFaces\<close>.
\<close>

definition initialSession :: "ImageFile \<Rightarrow> Session" where
  "initialSession f =
     \<lparr>fileProp = f,
      processor = \<lparr>models = [], isInitialized = False, isProcessing = False,
                    detectionsStarted = 0\<rparr>,
      initializationPromise = None,
      isDetectionRunningRef = False,
      imageLoaded = False,
      sensitivityLevel = 1,
      detectionTimeout = None,
      resetTimeouts = [],
      inFlight = [],
      detectFacesArguments = []\<rparr>"

text \<open>
  \<open>runFaceDetection\<close> up to its \<open>await\<close>: the guard on \<open>isDetectionRunningRef\<close> and
  \<open>imageLoaded\<close> (\<open>processorRef.current\<close> is set when the component mounts), then the
  call of \<open>detectFaces\<close>, which runs up to its own first \<open>await\<close> (or returns at once
  when \<open>isProcessing\<close> is set).
\<close>

definition runFaceDetection :: "real \<Rightarrow> Session \<Rightarrow> Session" where
  "runFaceDetection sensitivity s =
     (if isDetectionRunningRef s \<or> \<not> imageLoaded s then s
      else
        (let s1 = s\<lparr>isDetectionRunningRef := True,
                     detectFacesArguments := detectFacesArguments s @ [sensitivity]\<rparr>
         in if isProcessing (processor s1) then s1\<lparr>inFlight := inFlight s1 @ [Settled]\<rparr>
            else s1\<lparr>inFlight := inFlight s1 @ [AwaitingInitialization sensitivity]\<rparr>))"

text \<open>The effect that schedules detection when the image loads or the level changes.\<close>

definition detectionEffect :: "Session \<Rightarrow> Session" where
  "detectionEffect s =
     (if imageLoaded s \<and> \<not> isDetectionRunningRef s
      then s\<lparr>detectionTimeout := Some (sensitivityLevel s)\<rparr>
      else s)"

datatype event =
    InitializationSettles "(string \<times> DetectionModel) list"
  | HandleImageLoad
  | HandleSensitivityChange SliderStop
  | ResetToOriginal
  | DetectionTimeoutFires
  | ResetTimeoutFires nat
  | CallResumes nat
  | PassSettles DetectionEnv nat
  | CallerContinues nat

text \<open>
  \<open>initializeModels\<close> settles once: fulfilled with \<open>isInitialized = true\<close> when at
  least one model has loaded, rejected with \<open>isInitialized = false\<close> otherwise.
\<close>

definition initializationSettles :: "(string \<times> DetectionModel) list \<Rightarrow> Session \<Rightarrow> Session" where
  "initializationSettles ms s =
     (case initializationPromise s of
        Some r \<Rightarrow> s
      | None \<Rightarrow>
          (let ok = (length (filter isLoaded (map snd ms)) \<noteq> 0)
           in s\<lparr>processor := (processor s)\<lparr>models := ms, isInitialized := ok\<rparr>,
                initializationPromise := Some (if ok then Fulfilled else Rejected)\<rparr>))"

text \<open>The call at position \<open>k\<close> continues after \<open>await this.initializationPromise\<close>.\<close>

definition callResumes :: "nat \<Rightarrow> Session \<Rightarrow> Session" where
  "callResumes k s =
     (if k < length (inFlight s) then
        (case (inFlight s ! k, initializationPromise s) of
           (AwaitingInitialization sensitivity, Some r) \<Rightarrow>
             (case detectFacesAdmit (processor s) r of
                None \<Rightarrow> s\<lparr>inFlight := (inFlight s)[k := Settled]\<rparr>
              | Some p' \<Rightarrow>
                  s\<lparr>processor := p', inFlight := (inFlight s)[k := InPass sensitivity]\<rparr>)
         | _ \<Rightarrow> s)
      else s)"

text \<open>The pass of the call at position \<open>k\<close> ends: its promise resolves, \<open>finally\<close> runs.\<close>

definition passSettles :: "DetectionEnv \<Rightarrow> nat \<Rightarrow> Session \<Rightarrow> Session" where
  "passSettles env k s =
     (if k < length (inFlight s) then
        (case inFlight s ! k of
           InPass sensitivity \<Rightarrow>
             s\<lparr>processor :=
                  detectFacesFinally
                    (snd (detectionPass env (processor s) (fileProp s) sensitivity)),
               inFlight := (inFlight s)[k := Settled]\<rparr>
         | _ \<Rightarrow> s)
      else s)"

text \<open>
  \<open>runFaceDetection\<close> after its \<open>await\<close>, down to its \<open>finally\<close>, which clears
  \<open>isDetectionRunningRef\<close>.
\<close>

definition callerContinues :: "nat \<Rightarrow> Session \<Rightarrow> Session" where
  "callerContinues k s =
     (if k < length (inFlight s) then
        (case inFlight s ! k of
           Settled \<Rightarrow>
             s\<lparr>inFlight := take k (inFlight s) @ drop (Suc k) (inFlight s),
               isDetectionRunningRef := False\<rparr>
         | _ \<Rightarrow> s)
      else s)"

fun step :: "event \<Rightarrow> Session \<Rightarrow> Session" where
  "step (InitializationSettles ms) s = initializationSettles ms s"
| "step HandleImageLoad s = detectionEffect (s\<lparr>imageLoaded := True\<rparr>)"
| "step (HandleSensitivityChange stop) s =
     detectionEffect (s\<lparr>sensitivityLevel := sliderValue stop\<rparr>)"
| "step ResetToOriginal s =
     (if imageLoaded s \<and> \<not> isDetectionRunningRef s
      then s\<lparr>resetTimeouts := resetTimeouts s @ [sensitivityLevel s]\<rparr>
      else s)"
| "step DetectionTimeoutFires s =
     (case detectionTimeout s of
        None \<Rightarrow> s
      | Some level \<Rightarrow> runFaceDetection level (s\<lparr>detectionTimeout := None\<rparr>))"
| "step (ResetTimeoutFires k) s =
     (if k < length (resetTimeouts s)
      then runFaceDetection (resetTimeouts s ! k)
             (s\<lparr>resetTimeouts := take k (resetTimeouts s) @ drop (Suc k) (resetTimeouts s)\<rparr>)
      else s)"
| "step (CallResumes k) s = callResumes k s"
| "step (PassSettles env k) s = passSettles env k s"
| "step (CallerContinues k) s = callerContinues k s"

definition run :: "event list \<Rightarrow> Session \<Rightarrow> Session" where
  "run events s = foldl (\<lambda>s e. step e s) s events"

text \<open>The calls that are inside a detection pass.\<close>

fun inPass :: "call \<Rightarrow> bool" where
  "inPass (InPass sensitivity) = True"
| "inPass c = False"

definition passesInFlight :: "Session \<Rightarrow> nat" where
  "passesInFlight s = length (filter inPass (inFlight s))"

subsection \<open>Invariants of the session\<close>

text \<open>
  At most one \<open>detectFaces\<close> call is in flight; \<open>isDetectionRunningRef\<close> is set exactly
  while there is one, and \<open>isProcessing\<close> exactly while that call is inside its pass.
\<close>

definition singleFlight :: "Session \<Rightarrow> bool" where
  "singleFlight s =
     (case inFlight s of
        [] \<Rightarrow> \<not> isDetectionRunningRef s \<and> \<not> isProcessing (processor s)
      | [c] \<Rightarrow> isDetectionRunningRef s \<and> (isProcessing (processor s) = inPass c)
      | c # d # cs \<Rightarrow> False)"

text \<open>
  Every sensitivity level the session holds (in its state, in the closures of its
  timers, in the arguments it has passed to \<open>detectFaces\<close>) is a value of the slider.
\<close>

definition sliderLevel :: "real \<Rightarrow> bool" where
  "sliderLevel v \<longleftrightarrow> v = 0 \<or> v = 1 \<or> v = 2"

definition levelsFromSlider :: "Session \<Rightarrow> bool" where
  "levelsFromSlider s \<longleftrightarrow>
     sliderLevel (sensitivityLevel s)
   \<and> list_all sliderLevel (case detectionTimeout s of None \<Rightarrow> [] | Some v \<Rightarrow> [v])
   \<and> list_all sliderLevel (resetTimeouts s)
   \<and> list_all sliderLevel (detectFacesArguments s)"

section \<open>Concrete inputs\<close>

text \<open>Inputs at which the theorems below are evaluated.\<close>

definition lowConfidenceCandidate :: FaceCandidate where
  "lowConfidenceCandidate =
     \<lparr>x = 10, y = 10, width = 50, height = 50, confidence = 0.3,
      source = ''MediaPipe Short'', landmarks = None\<rparr>"

text \<open>
  Two detections of one face, as the two detector models report them on an image of
  200 by 200 pixels; both lie within the image, the right edge of each at 200.
\<close>

definition fullModelCandidate :: FaceCandidate where
  "fullModelCandidate =
     \<lparr>x = 110, y = 10, width = 90, height = 90, confidence = 0.9,
      source = ''MediaPipe Full'', landmarks = None\<rparr>"

definition shortModelCandidate :: FaceCandidate where
  "shortModelCandidate =
     \<lparr>x = 111, y = 10, width = 89, height = 90, confidence = 0.85,
      source = ''MediaPipe Short'', landmarks = None\<rparr>"

text \<open>Two candidates whose IoU is 400 / 1000.\<close>

definition leftCandidate :: FaceCandidate where
  "leftCandidate =
     \<lparr>x = 0, y = 0, width = 70, height = 10, confidence = 0.9,
      source = ''MediaPipe Full'', landmarks = None\<rparr>"

definition rightCandidate :: FaceCandidate where
  "rightCandidate =
     \<lparr>x = 30, y = 0, width = 70, height = 10, confidence = 0.8,
      source = ''MediaPipe Short'', landmarks = None\<rparr>"

text \<open>
  A canvas on which \<open>drawImage\<close> throws whenever the blur filter is set and no pixel
  can be read, while \<open>fillRect\<close> works; a fresh context; a face inside a canvas of 100
  by 100 pixels, and the enabled region of the component it comes from.
\<close>

definition failingCanvas :: CanvasEnv where
  "failingCanvas =
     \<lparr>drawImageThrows = (\<lambda>ctx px py w h. ctx_filter ctx = ''blur(8px)''),
      getImageData = (\<lambda>ctx px py. None),
      fillRectThrows = (\<lambda>ctx px py w h. False)\<rparr>"




text \<open>
  A processor whose initialization has loaded one model; the external detectors
  reporting the two detections above; detectors of which one throws.
\<close>

definition loadedModelList :: "(string \<times> DetectionModel) list" where
  "loadedModelList =
     [(''mediapipe-full'',
         \<lparr>name = ''MediaPipe Full'', isLoaded = True, priority = 1,
          bestFor = ''High accuracy, crowd scenes''\<rparr>)]"

definition readyProcessor :: ImageProcessor where
  "readyProcessor =
     \<lparr>models = loadedModelList, isInitialized = True, isProcessing = False,
      detectionsStarted = 0\<rparr>"

definition twoDetections :: DetectionEnv where
  "twoDetections =
     \<lparr>initialization = Fulfilled,
      strategies = (\<lambda>w h s. Some [fullModelCandidate, shortModelCandidate])\<rparr>"

definition throwingDetectors :: DetectionEnv where
  "throwingDetectors = \<lparr>initialization = Fulfilled, strategies = (\<lambda>w h s. None)\<rparr>"

text \<open>
  A session in which the image loads, a reset and the effect each set a timer, the
  effect's timer starts a detection and the call enters its pass; then the same session
  with the other timer firing during the pass; and a session whose detection has run to
  its end.
\<close>

definition passActive :: "event list" where
  "passActive =
     [InitializationSettles loadedModelList, HandleImageLoad, ResetToOriginal,
      DetectionTimeoutFires, CallResumes 0]"

definition passCompleted :: "event list" where
  "passCompleted =
     [InitializationSettles loadedModelList, HandleImageLoad,
      DetectionTimeoutFires, CallResumes 0, PassSettles throwingDetectors 0,
      CallerContinues 0]"

definition thoroughSelected :: "event list" where
  "thoroughSelected = [HandleImageLoad, HandleSensitivityChange Thorough, DetectionTimeoutFires]"

section \<open>Properties of \<open>calculateIoU\<close>\<close>



lemma calculateIoU_sym: "calculateIoU a b = calculateIoU b a"
proof -
  have "iou_x1 a b = iou_x1 b a" "iou_y1 a b = iou_y1 b a"
       "iou_x2 a b = iou_x2 b a" "iou_y2 a b = iou_y2 b a"
    by (simp_all add: iou_x1_def iou_y1_def iou_x2_def iou_y2_def max.commute min.commute)
  then show ?thesis
    by (simp add: calculateIoU_def iou_intersection_def iou_union_def)
qed






section \<open>Properties of the quality filter\<close>





section \<open>Properties of the clustering stage\<close>

lemma addToCluster_no_match:
  "\<forall>cl \<in> set cls. \<not> calculateIoU c (fst cl) > clusterThreshold s \<Longrightarrow>
     addToCluster s c cls = cls @ [(c, [])]"
  by (induction cls) auto

lemma addToCluster_first_match:
  "i < length cls \<Longrightarrow> calculateIoU c (fst (cls ! i)) > clusterThreshold s \<Longrightarrow>
   \<forall>j < i. \<not> calculateIoU c (fst (cls ! j)) > clusterThreshold s \<Longrightarrow>
     addToCluster s c cls = cls[i := (fst (cls ! i), snd (cls ! i) @ [c])]"
proof (induction cls arbitrary: i)
  case Nil
  then show ?case by simp
next
  case (Cons cl cls)
  obtain r rest where cl: "cl = (r, rest)" by (cases cl)
  show ?case
  proof (cases i)
    case 0
    with Cons.prems cl show ?thesis by simp
  next
    case (Suc k)
    from Cons.prems Suc have head: "\<not> calculateIoU c r > clusterThreshold s"
      using cl by fastforce
    have later: "\<forall>j < k. \<not> calculateIoU c (fst (cls ! j)) > clusterThreshold s"
      using Cons.prems(3) Suc by fastforce
    from Cons.prems Suc have "k < length cls" "calculateIoU c (fst (cls ! k)) > clusterThreshold s"
      by simp_all
    from Cons.IH [OF this later] head cl Suc show ?thesis by simp
  qed
qed

lemma pair_clusters:
  assumes "calculateIoU c1 c2 = v"
  shows "length (confidenceBasedClustering [c1, c2] s) = (if v > clusterThreshold s then 1 else 2)"
proof -
  have sym: "calculateIoU c2 c1 = v"
    using assms calculateIoU_sym [of c2 c1] by simp
  show ?thesis
    using assms sym
    by (simp add: confidenceBasedClustering_def buildClusters_def sortByConfidence_def)
qed

text \<open>
  C6, as the claim states it, fails at sensitivity 0.7: the claim puts the threshold at
  0.3 "at or above 0.7", so that a pair with IoU 0.4 would merge there; the source
  compares \<open>sensitivity > 0.7\<close>, the threshold at 0.7 is 0.5, and the pair remains two
  clusters.
\<close>

theorem clustering_threshold_at_07_counterexample:
  "calculateIoU leftCandidate rightCandidate = 0.4
   \<and> clusterThreshold 0.7 = 0.5
   \<and> clusterThreshold 0.7 \<noteq> 0.3
   \<and> length (confidenceBasedClustering [leftCandidate, rightCandidate] 0.7) = 2"
proof -
  have iou: "calculateIoU leftCandidate rightCandidate = 0.4"
    by (simp add: calculateIoU_def iou_union_def iou_intersection_def
        iou_x1_def iou_x2_def iou_y1_def iou_y2_def leftCandidate_def rightCandidate_def)
  have thr: "clusterThreshold 0.7 = 0.5"
    by (simp add: clusterThreshold_def)
  from pair_clusters [OF iou, of "0.7"] iou thr show ?thesis by simp
qed

text \<open>
  C6, amended. The clustering threshold is 0.3 for a sensitivity strictly above 0.7 and
  0.5 for a sensitivity of 0.7 or below. A candidate joins the first cluster whose
  representative has an IoU with it above the threshold (it is appended to that cluster
  and the other clusters are unchanged), and starts a new cluster at the end when there
  is none. A pair of candidates with IoU 0.4 is merged into one cluster at sensitivity
  0.8 and remains two clusters at sensitivity 0.5.
\<close>

theorem clustering_threshold_amended:
  "clusterThreshold s = (if s > 0.7 then 0.3 else 0.5)
   \<and> (i < length cls \<and> calculateIoU c (fst (cls ! i)) > clusterThreshold s
        \<and> (\<forall>j < i. \<not> calculateIoU c (fst (cls ! j)) > clusterThreshold s) \<longrightarrow>
          addToCluster s c cls = cls[i := (fst (cls ! i), snd (cls ! i) @ [c])])
   \<and> ((\<forall>cl \<in> set cls. \<not> calculateIoU c (fst cl) > clusterThreshold s) \<longrightarrow>
          addToCluster s c cls = cls @ [(c, [])])
   \<and> (calculateIoU c1 c2 = 0.4 \<longrightarrow>
          length (confidenceBasedClustering [c1, c2] 0.8) = 1
        \<and> length (confidenceBasedClustering [c1, c2] 0.5) = 2)"
proof -
  have pair: "calculateIoU c1 c2 = 0.4 \<longrightarrow>
          length (confidenceBasedClustering [c1, c2] 0.8) = 1
        \<and> length (confidenceBasedClustering [c1, c2] 0.5) = 2"
  proof
    assume iou: "calculateIoU c1 c2 = 0.4"
    from pair_clusters [OF iou, of "0.8"] pair_clusters [OF iou, of "0.5"]
    show "length (confidenceBasedClustering [c1, c2] 0.8) = 1
        \<and> length (confidenceBasedClustering [c1, c2] 0.5) = 2"
      by (simp add: clusterThreshold_def)
  qed
  show ?thesis
    using addToCluster_first_match [where i = i and cls = cls and c = c and s = s]
      addToCluster_no_match [where cls = cls and c = c and s = s] pair
    by (simp add: clusterThreshold_def)
qed

text \<open>
  The amended statement at concrete inputs: with one existing cluster around
  \<open>leftCandidate\<close>, \<open>rightCandidate\<close> (IoU 0.4) joins it at sensitivity 0.8, and the
  far-away \<open>lowConfidenceCandidate\<close> starts a second cluster.
\<close>

theorem clustering_threshold_amended_witness:
  "calculateIoU rightCandidate leftCandidate > clusterThreshold 0.8
   \<and> addToCluster 0.8 rightCandidate [(leftCandidate, [])] = [(leftCandidate, [rightCandidate])]
   \<and> \<not> calculateIoU lowConfidenceCandidate leftCandidate > clusterThreshold 0.8
   \<and> addToCluster 0.8 lowConfidenceCandidate [(leftCandidate, [])]
        = [(leftCandidate, []), (lowConfidenceCandidate, [])]
   \<and> calculateIoU leftCandidate rightCandidate = 0.4
   \<and> length (confidenceBasedClustering [leftCandidate, rightCandidate] 0.8) = 1
   \<and> length (confidenceBasedClustering [leftCandidate, rightCandidate] 0.5) = 2"
proof -
  have iou: "calculateIoU leftCandidate rightCandidate = 0.4"
    "calculateIoU rightCandidate leftCandidate = 0.4"
    "calculateIoU lowConfidenceCandidate leftCandidate = 0"
    by (simp_all add: calculateIoU_def iou_union_def iou_intersection_def
        iou_x1_def iou_x2_def iou_y1_def iou_y2_def leftCandidate_def rightCandidate_def
        lowConfidenceCandidate_def)
  have thr: "clusterThreshold 0.8 = 0.3"
    by (simp add: clusterThreshold_def)
  from clustering_threshold_amended
         [where s = "0.8" and i = 0 and cls = "[(leftCandidate, [])]" and c = rightCandidate
            and ?c1.0 = leftCandidate and ?c2.0 = rightCandidate]
       clustering_threshold_amended
         [where s = "0.8" and i = 0 and cls = "[(leftCandidate, [])]"
            and c = lowConfidenceCandidate and ?c1.0 = leftCandidate and ?c2.0 = rightCandidate]
       iou thr
  show ?thesis by simp
qed

section \<open>The fused regions and the image bounds\<close>

lemma fusion_of_the_two_detections:
  "advancedEnsembleFusion [fullModelCandidate, shortModelCandidate] 200 200 1 =
     [\<lparr>x = 111, y = 10, width = 90, height = 90, confidence = 0.99\<rparr>]"
proof -
  have filtered: "advancedQualityFilter [fullModelCandidate, shortModelCandidate] 200 200 1
      = [fullModelCandidate, shortModelCandidate]"
    by (simp add: advancedQualityFilter_def qualityAccepts_def minSize_def maxSize_def
        aspectRatioRejected_def minConfidence_def fullModelCandidate_def shortModelCandidate_def)
  have ordered: "sortByConfidence [fullModelCandidate, shortModelCandidate]
      = [fullModelCandidate, shortModelCandidate]"
    by (simp add: sortByConfidence_def fullModelCandidate_def shortModelCandidate_def)
  have iou: "calculateIoU shortModelCandidate fullModelCandidate = 89 / 90"
    by (simp add: calculateIoU_def iou_union_def iou_intersection_def
        iou_x1_def iou_x2_def iou_y1_def iou_y2_def fullModelCandidate_def shortModelCandidate_def)
  have clusters: "buildClusters 1 [fullModelCandidate, shortModelCandidate]
      = [(fullModelCandidate, [shortModelCandidate])]"
    by (simp add: buildClusters_def iou clusterThreshold_def)
  have scores: "score fullModelCandidate = 0.99" "score shortModelCandidate = 0.85"
    by (simp_all add: score_def fullModelCandidate_def shortModelCandidate_def)
  have best: "selectBestFromCluster (fullModelCandidate, [shortModelCandidate]) 1
      = fullModelCandidate\<lparr>x := 111, y := 10, width := 90, height := 90, confidence := 0.99\<rparr>"
    by (simp add: selectBestFromCluster_def members_def bestScored_def scores average_def
        Math_round_def)
      (simp add: fullModelCandidate_def shortModelCandidate_def)
  have clustered: "confidenceBasedClustering [fullModelCandidate, shortModelCandidate] 1
      = [fullModelCandidate\<lparr>x := 111, y := 10, width := 90, height := 90, confidence := 0.99\<rparr>]"
    by (simp add: confidenceBasedClustering_def ordered clusters best)
  show ?thesis
    by (simp add: advancedEnsembleFusion_def filtered clustered adaptiveNonMaxSuppression_def
        sortByConfidence_def shouldKeep_def toFace_def)
qed

text \<open>
  C2 does not hold of the code. On an image of 200 by 200 pixels at sensitivity 1, with
  the two detector models reporting \<open>fullModelCandidate\<close> and \<open>shortModelCandidate\<close>
  (both inside the image, and both accepted by the boundary check of the quality
  filter), the pipeline returns one region with \<open>x = 111\<close> and \<open>width = 90\<close>:
  \<open>selectBestFromCluster\<close> rounds the averages 110.5 and 89.5 upwards independently, and
  the region ends at 201, one pixel beyond the image.
\<close>

theorem fused_region_exceeds_image_width:
  "x fullModelCandidate + width fullModelCandidate \<le> 200
   \<and> x shortModelCandidate + width shortModelCandidate \<le> 200
   \<and> advancedEnsembleFusion [fullModelCandidate, shortModelCandidate] 200 200 1 =
       [\<lparr>x = 111, y = 10, width = 90, height = 90, confidence = 0.99\<rparr>]
   \<and> fst (detectFaces twoDetections readyProcessor (Loaded 200 200) 1) =
       Inr [\<lparr>x = 111, y = 10, width = 90, height = 90, confidence = 0.99\<rparr>]
   \<and> x \<lparr>x = 111, y = 10, width = 90, height = 90, confidence = 0.99\<rparr>
       + width \<lparr>x = 111, y = 10, width = 90, height = 90, confidence = 0.99\<rparr> = (201::real)
   \<and> \<not> ((201::real) \<le> 200)"
proof -
  have inside: "x fullModelCandidate + width fullModelCandidate \<le> 200"
    "x shortModelCandidate + width shortModelCandidate \<le> 200"
    by (simp_all add: fullModelCandidate_def shortModelCandidate_def)
  show ?thesis
    using inside fusion_of_the_two_detections
    by (simp add: detectFaces_def detectFacesAdmit_def loadedModels_def detectionPass_def
        detectFacesFinally_def twoDetections_def readyProcessor_def loadedModelList_def)
qed

section \<open>Properties of the manual zone heuristic\<close>

text \<open>
  C8. For every point, every list of existing regions and every image of positive width
  and height, \<open>calculateSmartZoneSize\<close> returns a number, and that number lies between
  32 and 200, whichever of the three strategies produced it.
\<close>

theorem calculateSmartZoneSize_range:
  assumes "0 < imageWidth" and "0 < imageHeight"
  shows "\<exists>size. calculateSmartZoneSize clickX clickY existingFaces imageWidth imageHeight
            = Some size \<and> 32 \<le> size \<and> size \<le> 200"
proof -
  have area: "0 < imageWidth * imageHeight"
    using assms by simp
  have far: "sqrt ((imageWidth / 2)\<^sup>2 + (imageHeight / 2)\<^sup>2) \<noteq> 0"
    using assms by (simp add: power2_eq_square add_nonneg_eq_0_iff)
  show ?thesis
    using area far by (auto simp: calculateSmartZoneSize_def Let_def)
qed

text \<open>
  The hypothesis is needed only for the third strategy on an image of size 0 by 0, where
  the source divides by \<open>maxDistance = 0\<close> and returns \<open>NaN\<close>.
\<close>

lemma calculateSmartZoneSize_empty_image:
  "calculateSmartZoneSize clickX clickY ([] :: Box list) 0 0 = None"
  by (simp add: calculateSmartZoneSize_def)

text \<open>
  The image of 1000 by 1000 pixels with no regions and a click at its centre: the third
  strategy gives \<open>max 40 (min 120 (1 * 35 * 1.3)) = 45.5\<close>.
\<close>

theorem calculateSmartZoneSize_range_witness:
  "(0::real) < 1000
   \<and> (\<exists>size. calculateSmartZoneSize 500 500 ([] :: Box list) 1000 1000 = Some size
         \<and> 32 \<le> size \<and> size \<le> 200)
   \<and> calculateSmartZoneSize 500 500 ([] :: Box list) 1000 1000 = Some 45.5"
proof -
  have root: "sqrt (1000 * 1000) = (1000::real)"
    using real_sqrt_abs2 [of "1000::real"] by simp
  have centre: "calculateSmartZoneSize 500 500 ([] :: Box list) 1000 1000 = Some 45.5"
    by (simp add: calculateSmartZoneSize_def Let_def root)
  show ?thesis
    using calculateSmartZoneSize_range [of 1000 1000 500 500 "[] :: Box list"] centre
    by simp
qed

section \<open>Properties of the redaction renderer\<close>










lemma pixelSizeOf_pos: "6 \<le> pixelSizeOf w h"
  by (simp add: pixelSizeOf_def)























section \<open>Properties of the detection entry point and the session\<close>

lemma singleFlight_initial: "singleFlight (initialSession f)"
  by (simp add: singleFlight_def initialSession_def)

lemma singleFlight_cases:
  assumes "singleFlight s"
  obtains (idle) "inFlight s = []" "\<not> isDetectionRunningRef s" "\<not> isProcessing (processor s)"
  | (one) c where "inFlight s = [c]" "isDetectionRunningRef s"
      "isProcessing (processor s) = inPass c"
  using assms by (auto simp: singleFlight_def split: list.splits)

lemma singleFlight_runFaceDetection:
  "singleFlight s \<Longrightarrow> singleFlight (runFaceDetection v s)"
  by (auto simp: singleFlight_def runFaceDetection_def Let_def split: list.splits)

lemma singleFlight_step: "singleFlight s \<Longrightarrow> singleFlight (step e s)"
proof (cases e)
  case (InitializationSettles ms)
  assume "singleFlight s"
  then show ?thesis using InitializationSettles
    by (auto simp: singleFlight_def initializationSettles_def Let_def split: list.splits option.splits)
next
  case HandleImageLoad
  assume "singleFlight s"
  then show ?thesis using HandleImageLoad
    by (auto simp: singleFlight_def detectionEffect_def split: list.splits)
next
  case (HandleSensitivityChange stop)
  assume "singleFlight s"
  then show ?thesis using HandleSensitivityChange
    by (auto simp: singleFlight_def detectionEffect_def split: list.splits)
next
  case ResetToOriginal
  assume "singleFlight s"
  then show ?thesis using ResetToOriginal
    by (auto simp: singleFlight_def split: list.splits)
next
  case DetectionTimeoutFires
  assume inv: "singleFlight s"
  show ?thesis
  proof (cases "detectionTimeout s")
    case None
    with inv DetectionTimeoutFires show ?thesis by simp
  next
    case (Some v)
    from inv have "singleFlight (s\<lparr>detectionTimeout := None\<rparr>)"
      by (auto simp: singleFlight_def split: list.splits)
    from singleFlight_runFaceDetection [OF this] Some DetectionTimeoutFires
    show ?thesis by simp
  qed
next
  case (ResetTimeoutFires k)
  assume inv: "singleFlight s"
  then have "singleFlight (s\<lparr>resetTimeouts := take k (resetTimeouts s) @ drop (Suc k) (resetTimeouts s)\<rparr>)"
    by (auto simp: singleFlight_def split: list.splits)
  from singleFlight_runFaceDetection [OF this] inv ResetTimeoutFires
  show ?thesis by simp
next
  case (CallResumes k)
  assume inv: "singleFlight s"
  from inv show ?thesis
  proof (cases rule: singleFlight_cases)
    case idle
    then have "callResumes k s = s" by (simp add: callResumes_def)
    with inv CallResumes show ?thesis by simp
  next
    case (one c)
    show ?thesis
    proof (cases "k = 0")
      case False
      with one have "callResumes k s = s" by (simp add: callResumes_def)
      with inv CallResumes show ?thesis by simp
    next
      case True
      with one CallResumes show ?thesis
        by (cases c; cases "initializationPromise s")
          (auto simp: singleFlight_def callResumes_def detectFacesAdmit_def
            split: settled.splits)
    qed
  qed
next
  case (PassSettles env k)
  assume inv: "singleFlight s"
  from inv show ?thesis
  proof (cases rule: singleFlight_cases)
    case idle
    then have "passSettles env k s = s" by (simp add: passSettles_def)
    with inv PassSettles show ?thesis by simp
  next
    case (one c)
    show ?thesis
    proof (cases "k = 0")
      case False
      with one have "passSettles env k s = s" by (simp add: passSettles_def)
      with inv PassSettles show ?thesis by simp
    next
      case True
      with one PassSettles show ?thesis
        by (cases c) (auto simp: singleFlight_def passSettles_def detectFacesFinally_def)
    qed
  qed
next
  case (CallerContinues k)
  assume inv: "singleFlight s"
  from inv show ?thesis
  proof (cases rule: singleFlight_cases)
    case idle
    then have "callerContinues k s = s" by (simp add: callerContinues_def)
    with inv CallerContinues show ?thesis by simp
  next
    case (one c)
    show ?thesis
    proof (cases "k = 0")
      case False
      with one have "callerContinues k s = s" by (simp add: callerContinues_def)
      with inv CallerContinues show ?thesis by simp
    next
      case True
      with one CallerContinues show ?thesis
        by (cases c) (auto simp: singleFlight_def callerContinues_def)
    qed
  qed
qed

lemma singleFlight_run: "singleFlight s \<Longrightarrow> singleFlight (run events s)"
  unfolding run_def by (induction events arbitrary: s) (simp_all add: singleFlight_step)

lemma singleFlight_passes: "singleFlight s \<Longrightarrow> passesInFlight s \<le> 1"
  by (auto simp: singleFlight_def passesInFlight_def split: list.splits)


lemma sliderLevel_value: "sliderLevel (sliderValue stop)"
  by (cases stop) (simp_all add: sliderLevel_def)

lemma levels_initial: "levelsFromSlider (initialSession f)"
  by (simp add: levelsFromSlider_def initialSession_def sliderLevel_def)

lemma levels_runFaceDetection:
  "levelsFromSlider s \<Longrightarrow> sliderLevel v \<Longrightarrow> levelsFromSlider (runFaceDetection v s)"
  by (auto simp: levelsFromSlider_def runFaceDetection_def Let_def)

lemma levels_step: "levelsFromSlider s \<Longrightarrow> levelsFromSlider (step e s)"
proof (cases e)
  case (InitializationSettles ms)
  assume "levelsFromSlider s"
  then show ?thesis using InitializationSettles
    by (auto simp: levelsFromSlider_def initializationSettles_def Let_def split: option.splits)
next
  case HandleImageLoad
  assume "levelsFromSlider s"
  then show ?thesis using HandleImageLoad
    by (auto simp: levelsFromSlider_def detectionEffect_def)
next
  case (HandleSensitivityChange stop)
  assume "levelsFromSlider s"
  then show ?thesis using HandleSensitivityChange sliderLevel_value [of stop]
    by (auto simp: levelsFromSlider_def detectionEffect_def)
next
  case ResetToOriginal
  assume "levelsFromSlider s"
  then show ?thesis using ResetToOriginal
    by (auto simp: levelsFromSlider_def)
next
  case DetectionTimeoutFires
  assume inv: "levelsFromSlider s"
  show ?thesis
  proof (cases "detectionTimeout s")
    case None
    with inv DetectionTimeoutFires show ?thesis by simp
  next
    case (Some v)
    from inv Some have "levelsFromSlider (s\<lparr>detectionTimeout := None\<rparr>)" "sliderLevel v"
      by (simp_all add: levelsFromSlider_def)
    from levels_runFaceDetection [OF this] Some DetectionTimeoutFires
    show ?thesis by simp
  qed
next
  case (ResetTimeoutFires k)
  assume inv: "levelsFromSlider s"
  show ?thesis
  proof (cases "k < length (resetTimeouts s)")
    case False
    with inv ResetTimeoutFires show ?thesis by simp
  next
    case True
    from inv have "levelsFromSlider
        (s\<lparr>resetTimeouts := take k (resetTimeouts s) @ drop (Suc k) (resetTimeouts s)\<rparr>)"
      by (auto simp: levelsFromSlider_def list_all_iff dest: in_set_takeD in_set_dropD)
    moreover from inv True have "sliderLevel (resetTimeouts s ! k)"
      by (simp add: levelsFromSlider_def list_all_length)
    ultimately show ?thesis
      using levels_runFaceDetection True ResetTimeoutFires by simp
  qed
next
  case (CallResumes k)
  assume inv: "levelsFromSlider s"
  then show ?thesis using CallResumes
    by (auto simp: levelsFromSlider_def callResumes_def
        split: call.splits option.splits)
next
  case (PassSettles env k)
  assume inv: "levelsFromSlider s"
  then show ?thesis using PassSettles
    by (auto simp: levelsFromSlider_def passSettles_def split: call.splits)
next
  case (CallerContinues k)
  assume inv: "levelsFromSlider s"
  then show ?thesis using CallerContinues
    by (auto simp: levelsFromSlider_def callerContinues_def split: call.splits)
qed

lemma levels_run: "levelsFromSlider s \<Longrightarrow> levelsFromSlider (run events s)"
  unfolding run_def by (induction events arbitrary: s) (simp_all add: levels_step)

lemma detectFaces_guard_released: "\<not> isProcessing p \<Longrightarrow> \<not> isProcessing (snd (detectFaces env p f v))"
  by (auto simp: detectFaces_def detectFacesAdmit_def detectionPass_def detectFacesFinally_def
      Let_def split: option.splits settled.splits ImageFile.splits prod.splits if_splits)

lemma detectFaces_dropped: "isProcessing p \<Longrightarrow> detectFaces env p f v = (Inr [], p)"
  by (simp add: detectFaces_def)

lemma detectFaces_LoadError: "fst (detectFaces env p LoadError v) = Inr []"
  by (auto simp: detectFaces_def detectionPass_def split: option.splits)

lemma detectFaces_LoadError_no_strategy: "detectionsStarted (snd (detectFaces env p LoadError v)) = detectionsStarted p"
  by (auto simp: detectFaces_def detectionPass_def detectFacesAdmit_def detectFacesFinally_def split: option.splits settled.splits if_splits)

lemma render_LoadError: "applyRedaction env enc LoadError faces m = Inl FailedToLoadImage"
  "createLivePreview env enc LoadError faces m = Inl FailedToLoadImage"
  by (simp_all add: applyRedaction_def createLivePreview_def renderOnto_def)

text \<open>
  C3. Within one session at most one detection pass is in flight at any time: in every
  state the session can reach, at most one \<open>detectFaces\<close> call is inside its pass. A
  \<open>detectFaces\<close> call that arrives while \<open>isProcessing\<close> is set returns the empty list
  and leaves the processor as it was (no detection strategy is started, nothing is
  queued); and a request that reaches \<open>runFaceDetection\<close> while a detection is running
  is dropped there, leaving the session as it was.
\<close>

theorem single_flight_detection:
  "passesInFlight (run events (initialSession f)) \<le> 1
   \<and> (isProcessing p \<longrightarrow> detectFaces env p imageFile sensitivity = (Inr [], p))
   \<and> (isDetectionRunningRef s \<longrightarrow> runFaceDetection sensitivity s = s)"
proof -
  have "passesInFlight (run events (initialSession f)) \<le> 1"
    using singleFlight_passes [OF singleFlight_run [OF singleFlight_initial]] .
  moreover have "isDetectionRunningRef s \<longrightarrow> runFaceDetection sensitivity s = s"
    by (simp add: runFaceDetection_def)
  ultimately show ?thesis
    using detectFaces_dropped [of p env imageFile sensitivity] by blast
qed

lemma passActive_state:
  "run passActive (initialSession (Loaded 200 200)) =
     \<lparr>fileProp = Loaded 200 200,
      processor = readyProcessor\<lparr>isProcessing := True\<rparr>,
      initializationPromise = Some Fulfilled,
      isDetectionRunningRef = True,
      imageLoaded = True,
      sensitivityLevel = 1,
      detectionTimeout = None,
      resetTimeouts = [1],
      inFlight = [InPass 1],
      detectFacesArguments = [1]\<rparr>"
  by (simp add: run_def passActive_def initialSession_def initializationSettles_def
      loadedModelList_def detectionEffect_def runFaceDetection_def callResumes_def
      detectFacesAdmit_def loadedModels_def readyProcessor_def Let_def)

text \<open>
  While the pass of the first call is active, the timer set by the reset fires: the
  request is dropped, and one pass remains in flight.
\<close>

theorem single_flight_detection_witness:
  "isProcessing (processor (run passActive (initialSession (Loaded 200 200))))
   \<and> detectFaces twoDetections (processor (run passActive (initialSession (Loaded 200 200))))
        (Loaded 200 200) 1
       = (Inr [], processor (run passActive (initialSession (Loaded 200 200))))
   \<and> isDetectionRunningRef (run passActive (initialSession (Loaded 200 200)))
   \<and> runFaceDetection 1 (run passActive (initialSession (Loaded 200 200)))
       = run passActive (initialSession (Loaded 200 200))
   \<and> passesInFlight (run (passActive @ [ResetTimeoutFires 0]) (initialSession (Loaded 200 200)))
       \<le> 1
   \<and> passesInFlight (run passActive (initialSession (Loaded 200 200))) = 1
   \<and> detectFacesArguments
         (run (passActive @ [ResetTimeoutFires 0]) (initialSession (Loaded 200 200))) = [1]"
proof -
  have busy: "isProcessing (processor (run passActive (initialSession (Loaded 200 200))))"
    "isDetectionRunningRef (run passActive (initialSession (Loaded 200 200)))"
    "passesInFlight (run passActive (initialSession (Loaded 200 200))) = 1"
    by (simp_all add: passActive_state passesInFlight_def)
  have dropped: "detectFacesArguments
         (run (passActive @ [ResetTimeoutFires 0]) (initialSession (Loaded 200 200))) = [1]"
    using passActive_state by (simp add: run_def runFaceDetection_def)
  from single_flight_detection
         [where events = "passActive @ [ResetTimeoutFires 0]" and f = "Loaded 200 200"
            and p = "processor (run passActive (initialSession (Loaded 200 200)))"
            and env = twoDetections and imageFile = "Loaded 200 200" and sensitivity = 1
            and s = "run passActive (initialSession (Loaded 200 200))"]
       busy dropped
  show ?thesis by simp
qed

text \<open>
  C4, as the claim states it, fails: with the slider at its third stop the component
  passes its level, the number 2, to \<open>detectFaces\<close> as the sensitivity, and 2 is not
  in the interval from 0 to 1.
\<close>

theorem thorough_sensitivity_counterexample:
  "detectFacesArguments (run thoroughSelected (initialSession (Loaded 200 200))) = [2]
   \<and> \<not> ((0::real) \<le> 2 \<and> (2::real) \<le> 1)"
  by (simp add: run_def thoroughSelected_def initialSession_def detectionEffect_def
      runFaceDetection_def Let_def)

text \<open>
  C4, amended. For every invocation of the detection pipeline in a session, the
  sensitivity passed to \<open>detectFaces\<close> is the level of the slider itself: 0, 1 (the
  initial level) or 2. It lies in the interval from 0 to 2.
\<close>

theorem sensitivity_is_slider_level:
  "\<forall>v \<in> set (detectFacesArguments (run events (initialSession f))).
      (v = 0 \<or> v = 1 \<or> v = 2) \<and> 0 \<le> v \<and> v \<le> 2"
proof -
  have "levelsFromSlider (run events (initialSession f))"
    using levels_run [OF levels_initial] .
  then show ?thesis
    by (auto simp: levelsFromSlider_def list_all_iff sliderLevel_def)
qed

theorem sensitivity_is_slider_level_witness:
  "2 \<in> set (detectFacesArguments (run thoroughSelected (initialSession (Loaded 200 200))))
   \<and> (0::real) \<le> 2 \<and> (2::real) \<le> 2"
proof -
  have "detectFacesArguments (run thoroughSelected (initialSession (Loaded 200 200))) = [2]"
    by (simp add: run_def thoroughSelected_def initialSession_def detectionEffect_def
        runFaceDetection_def Let_def)
  with sensitivity_is_slider_level [of thoroughSelected "Loaded 200 200"]
  show ?thesis by simp
qed

text \<open>
  C9, as the claim states it, fails for \<open>detectFaces\<close>: given an image that fails to
  decode, its promise does not reject; it resolves with the empty list, which the caller
  cannot tell from "no faces found".
\<close>

theorem detectFaces_decode_failure_counterexample:
  "fst (detectFaces twoDetections readyProcessor LoadError 1) = Inr []
   \<and> fst (detectFaces twoDetections readyProcessor LoadError 1) \<noteq> Inl FailedToLoadImage"
  by (simp add: detectFaces_LoadError)

text \<open>
  C9, amended. Given an image that fails to decode, \<open>applyRedaction\<close> and
  \<open>createLivePreview\<close> reject with the error "Failed to load image" and return no
  surface; \<open>detectFaces\<close> starts no detection strategy and resolves with the empty
  list.
\<close>

theorem decode_failure_by_operation:
  "applyRedaction canvas toBlob LoadError faces redactionMethod = Inl FailedToLoadImage
   \<and> createLivePreview canvas toDataURL LoadError faces redactionMethod = Inl FailedToLoadImage
   \<and> fst (detectFaces env p LoadError sensitivity) = Inr []
   \<and> detectionsStarted (snd (detectFaces env p LoadError sensitivity)) = detectionsStarted p"
  by (simp add: render_LoadError detectFaces_LoadError detectFaces_LoadError_no_strategy)

theorem decode_failure_by_operation_witness:
  "applyRedaction failingCanvas (\<lambda>ctx. True) LoadError [fullModelCandidate] Blur
      = Inl FailedToLoadImage
   \<and> createLivePreview failingCanvas (\<lambda>ctx. True) LoadError [fullModelCandidate] Blur
      = Inl FailedToLoadImage
   \<and> fst (detectFaces twoDetections readyProcessor LoadError 1) = Inr []
   \<and> detectionsStarted (snd (detectFaces twoDetections readyProcessor LoadError 1)) = 0"
  using decode_failure_by_operation
          [where canvas = failingCanvas and toBlob = "\<lambda>ctx. True" and toDataURL = "\<lambda>ctx. True"
             and faces = "[fullModelCandidate]" and redactionMethod = Blur and env = twoDetections
             and p = readyProcessor and sensitivity = 1]
  by (simp add: readyProcessor_def)

text \<open>
  C10. A call of \<open>detectFaces\<close> that finds the guard \<open>isProcessing\<close> clear leaves it
  clear when it completes, whatever happened: initialization rejected or incomplete, no
  model loaded, the image failing to decode or having a zero dimension, a detection
  strategy throwing, or detection succeeding. In the session, whenever no
  \<open>detectFaces\<close> call is in flight the guard is clear, so no completed or failed pass
  blocks a later request.
\<close>

theorem detectFaces_releases_guard:
  "(\<not> isProcessing p \<longrightarrow> \<not> isProcessing (snd (detectFaces env p imageFile sensitivity)))
   \<and> (inFlight (run events (initialSession f)) = [] \<longrightarrow>
        \<not> isProcessing (processor (run events (initialSession f))))"
proof -
  have "singleFlight (run events (initialSession f))"
    using singleFlight_run [OF singleFlight_initial] .
  then have "inFlight (run events (initialSession f)) = [] \<longrightarrow>
        \<not> isProcessing (processor (run events (initialSession f)))"
    by (auto simp: singleFlight_def)
  then show ?thesis
    using detectFaces_guard_released [of p env imageFile sensitivity] by blast
qed

lemma passCompleted_state:
  "run passCompleted (initialSession (Loaded 200 200)) =
     \<lparr>fileProp = Loaded 200 200,
      processor = readyProcessor\<lparr>detectionsStarted := 1\<rparr>,
      initializationPromise = Some Fulfilled,
      isDetectionRunningRef = False,
      imageLoaded = True,
      sensitivityLevel = 1,
      detectionTimeout = None,
      resetTimeouts = [],
      inFlight = [],
      detectFacesArguments = [1]\<rparr>"
  by (simp add: run_def passCompleted_def initialSession_def initializationSettles_def
      loadedModelList_def detectionEffect_def runFaceDetection_def callResumes_def
      detectFacesAdmit_def loadedModels_def readyProcessor_def passSettles_def
      detectionPass_def throwingDetectors_def detectFacesFinally_def callerContinues_def Let_def)

text \<open>
  A detection whose strategies throw: the call resolves with the empty list and the
  guard is clear again, in the single call and in the session.
\<close>

theorem detectFaces_releases_guard_witness:
  "\<not> isProcessing readyProcessor
   \<and> fst (detectFaces throwingDetectors readyProcessor (Loaded 200 200) 1) = Inr []
   \<and> \<not> isProcessing (snd (detectFaces throwingDetectors readyProcessor (Loaded 200 200) 1))
   \<and> inFlight (run passCompleted (initialSession (Loaded 200 200))) = []
   \<and> \<not> isProcessing (processor (run passCompleted (initialSession (Loaded 200 200))))"
proof -
  have clear: "\<not> isProcessing readyProcessor"
    by (simp add: readyProcessor_def)
  have empty: "fst (detectFaces throwingDetectors readyProcessor (Loaded 200 200) 1) = Inr []"
    by (simp add: detectFaces_def detectFacesAdmit_def loadedModels_def detectionPass_def
        throwingDetectors_def readyProcessor_def loadedModelList_def)
  have finished: "inFlight (run passCompleted (initialSession (Loaded 200 200))) = []"
    by (simp add: passCompleted_state)
  from detectFaces_releases_guard
         [where p = readyProcessor and env = throwingDetectors and imageFile = "Loaded 200 200"
            and sensitivity = 1 and events = passCompleted and f = "Loaded 200 200"]
       clear empty finished
  show ?thesis by simp
qed

end
